theory Spec2Isabelle
  imports Main
begin

section \<open>Text functions of the validation library\<close>

text \<open>
  The controllers run every request value through chains of the validation library.
  A text is a list of characters with a code below 256, each \<open>char\<close> one character
  (the Latin-1 range); a text with a character beyond that range is outside the model.
  \<open>trim\<close> removes white space at both ends (the JavaScript class \<open>\s\<close>, which in
  this range is the six ASCII blanks and the no-break space), \<open>escape\<close> replaces the
  eight HTML-special characters, \<open>isInt\<close> accepts an optional sign followed by decimal
  digits (leading zeros allowed, the library's default), \<open>isLength\<close> bounds the number
  of characters.
\<close>

definition is_space :: "char \<Rightarrow> bool" where
  "is_space c =
     (c \<in> set [CHR '' '', CHR 0x09, CHR 0x0A, CHR 0x0B, CHR 0x0C, CHR 0x0D, CHR 0xA0])"

definition trim :: "string \<Rightarrow> string" where
  "trim str = rev (dropWhile is_space (rev (dropWhile is_space str)))"

definition escape_char :: "char \<Rightarrow> string" where
  "escape_char c =
     (if c = CHR ''&'' then ''&amp;''
      else if c = CHR 0x22 then ''&quot;''
      else if c = CHR 0x27 then ''&#x27;''
      else if c = CHR ''<'' then ''&lt;''
      else if c = CHR ''>'' then ''&gt;''
      else if c = CHR ''/'' then ''&#x2F;''
      else if c = CHR 0x5C then ''&#x5C;''
      else if c = CHR 0x60 then ''&#96;''
      else [c])"

definition escape :: "string \<Rightarrow> string" where
  "escape str = concat (map escape_char str)"

definition is_digit :: "char \<Rightarrow> bool" where
  "is_digit c = (c \<in> set ''0123456789'')"

definition isInt :: "string \<Rightarrow> bool" where
  "isInt str =
     (case str of
        [] \<Rightarrow> False
      | c # cs \<Rightarrow>
          if c = CHR ''-'' \<or> c = CHR ''+'' then cs \<noteq> [] \<and> list_all is_digit cs
          else list_all is_digit str)"

definition digit_value :: "char \<Rightarrow> int" where
  "digit_value c = int (of_char c) - 48"

definition digits_value :: "string \<Rightarrow> int" where
  "digits_value ds = foldl (\<lambda>a c. 10 * a + digit_value c) 0 ds"

text \<open>
  The number JavaScript reads from a text that \<open>isInt\<close> accepts. The handlers compare
  and decrement such a text, which converts it. (A double is exact up to \<open>2^53\<close>; the
  values that survive the range checks below are bounded by 20 or by a document count.)
\<close>

definition toNumber :: "string \<Rightarrow> int" where
  "toNumber str =
     (case str of
        [] \<Rightarrow> 0
      | c # cs \<Rightarrow>
          if c = CHR ''-'' then - digits_value cs
          else if c = CHR ''+'' then digits_value cs
          else digits_value str)"

definition isLength :: "nat \<Rightarrow> nat option \<Rightarrow> string \<Rightarrow> bool" where
  "isLength min_len max_len str =
     (min_len \<le> length str \<and> (case max_len of None \<Rightarrow> True | Some m \<Rightarrow> length str \<le> m))"

section \<open>Object identifiers\<close>

text \<open>
  \<open>mongoose.Types.ObjectId.isValid\<close> belongs to the database driver. For a string it
  accepts 24 hexadecimal digits. An identifier is kept in the store as its canonical
  lower-case text; \<open>ObjectId\<close> is the cast from a request text.
\<close>

type_synonym oid = string

definition is_hex :: "char \<Rightarrow> bool" where
  "is_hex c = (c \<in> set ''0123456789abcdefABCDEF'')"

definition ObjectId_isValid :: "string \<Rightarrow> bool" where
  "ObjectId_isValid v = (length v = 24 \<and> list_all is_hex v)"

definition hex_lower :: "char \<Rightarrow> char" where
  "hex_lower c =
     (if c = CHR ''A'' then CHR ''a'' else if c = CHR ''B'' then CHR ''b''
      else if c = CHR ''C'' then CHR ''c'' else if c = CHR ''D'' then CHR ''d''
      else if c = CHR ''E'' then CHR ''e'' else if c = CHR ''F'' then CHR ''f''
      else c)"

definition ObjectId :: "string \<Rightarrow> oid" where
  "ObjectId v = map hex_lower v"

section \<open>Configuration, documents and the store\<close>

text \<open>
  \<open>MAX_DOCS_PER_FETCH\<close> is read from the process environment; \<open>isEmail\<close> is the
  validation library's e-mail check. Both are parameters of the model.
\<close>

record env =
  MAX_DOCS_PER_FETCH :: int
  isEmail :: "string \<Rightarrow> bool"

type_synonym date = nat

text \<open>The Comment schema (models/comment).\<close>

record comment =
  c_id :: oid
  c_post :: oid
  c_email :: string
  c_title :: string
  c_body :: string
  c_date :: date

text \<open>
  Modelled from the spec: the Post and Topic schemas (models/post and models/topic are
  not among the sources). A Post has an identifier, an author reference, a title, a body,
  a topic reference, a creation date and an ordered list of comment references; a Topic
  has an identifier and a name.
\<close>

record post =
  p_id :: oid
  p_author :: oid
  p_title :: string
  p_body :: string
  p_topic :: oid
  p_date :: date
  p_comments :: "oid list"

record topic =
  t_id :: oid
  t_name :: string

record store =
  Post_coll :: "post list"
  Comment_coll :: "comment list"
  Topic_coll :: "topic list"

type_synonym verror = "string \<times> string"

text \<open>
  What a handler leaves behind: a JSON body (\<open>res.json\<close>), status 400 with the collected
  errors, a bare status (\<open>res.sendStatus\<close>), or an error thrown out of the middleware,
  which the framework's error handler answers.
\<close>

datatype 'a response =
    Json 'a
  | BadRequest "verror list"
  | Unauthorized
  | Forbidden
  | NotFound
  | Thrown string

subsection \<open>Store primitives\<close>

text \<open>
  The collections are lists in insertion order. A query by identifier casts the text
  first and throws a cast error on a text that is not an identifier. The database
  refuses a negative \<open>skip\<close>, and it reads \<open>limit 0\<close> as no limit (a negative
  limit as its absolute value). \<open>find\<close> always resolves to an array;
  \<open>Comment_find\<close> returns it under \<open>Some\<close>, since its caller compares the result
  with \<open>undefined\<close>.
\<close>

definition post_by_id :: "store \<Rightarrow> oid \<Rightarrow> post option" where
  "post_by_id st i = find (\<lambda>p. p_id p = i) (Post_coll st)"

definition Post_findById :: "store \<Rightarrow> string \<Rightarrow> string + post option" where
  "Post_findById st v =
     (if ObjectId_isValid v then Inr (post_by_id st (ObjectId v)) else Inl ''CastError'')"

definition Post_countDocuments :: "store \<Rightarrow> nat" where
  "Post_countDocuments st = length (Post_coll st)"

definition Comment_countDocuments :: "store \<Rightarrow> string \<Rightarrow> nat" where
  "Comment_countDocuments st postid =
     length (filter (\<lambda>c. c_post c = ObjectId postid) (Comment_coll st))"

definition Topic_findOne_name :: "store \<Rightarrow> string \<Rightarrow> topic option" where
  "Topic_findOne_name st name = find (\<lambda>t. t_name t = name) (Topic_coll st)"

definition Topic_findOne_id :: "store \<Rightarrow> string \<Rightarrow> topic option" where
  "Topic_findOne_id st v = find (\<lambda>t. t_id t = ObjectId v) (Topic_coll st)"

definition apply_limit :: "int \<Rightarrow> 'a list \<Rightarrow> 'a list" where
  "apply_limit n docs = (if n = 0 then docs else take (nat \<bar>n\<bar>) docs)"

definition window :: "int \<Rightarrow> int \<Rightarrow> 'a list \<Rightarrow> string + 'a list" where
  "window skip_n limit_n docs =
     (if skip_n < 0 then Inl ''Skip value must be non-negative''
      else Inr (apply_limit limit_n (drop (nat skip_n) docs)))"

record post_filter =
  f_topic :: "string option"
  f_author :: "string option"

definition cast_ok :: "string option \<Rightarrow> bool" where
  "cast_ok v = (case v of None \<Rightarrow> True | Some s \<Rightarrow> ObjectId_isValid s)"

definition field_matches :: "string option \<Rightarrow> oid \<Rightarrow> bool" where
  "field_matches v i = (case v of None \<Rightarrow> True | Some s \<Rightarrow> i = ObjectId s)"

definition post_matches :: "post_filter \<Rightarrow> post \<Rightarrow> bool" where
  "post_matches queryOpts p =
     (field_matches (f_topic queryOpts) (p_topic p) \<and> field_matches (f_author queryOpts) (p_author p))"

text \<open>\<open>Post.find(queryOpts).skip(..).limit(..).sort({date: -1})\<close>: newest first.\<close>

definition Post_find :: "store \<Rightarrow> post_filter \<Rightarrow> int \<Rightarrow> int \<Rightarrow> string + post list" where
  "Post_find st queryOpts skip_n limit_n =
     (if \<not> (cast_ok (f_topic queryOpts) \<and> cast_ok (f_author queryOpts)) then Inl ''CastError''
      else window skip_n limit_n
             (sort_key (\<lambda>p. - int (p_date p)) (filter (post_matches queryOpts) (Post_coll st))))"

definition Comment_find :: "store \<Rightarrow> string \<Rightarrow> int \<Rightarrow> int \<Rightarrow> string + comment list option" where
  "Comment_find st postid skip_n limit_n =
     (if \<not> ObjectId_isValid postid then Inl ''CastError''
      else (case window skip_n limit_n
                   (filter (\<lambda>c. c_post c = ObjectId postid) (Comment_coll st)) of
              Inl err \<Rightarrow> Inl err
            | Inr docs \<Rightarrow> Inr (Some docs)))"

section \<open>Validation chains\<close>

definition check :: "string \<Rightarrow> string \<Rightarrow> (string \<Rightarrow> bool) list \<Rightarrow> string \<Rightarrow> verror list" where
  "check field msg validators v = map (\<lambda>_. (field, msg)) (filter (\<lambda>ok. \<not> ok v) validators)"

text \<open>\<open>param(field, msg).trim().custom(ObjectId.isValid).escape()\<close>\<close>

definition id_param :: "string \<Rightarrow> string \<Rightarrow> string \<Rightarrow> verror list \<times> string" where
  "id_param field msg raw =
     (let v = trim raw in (check field msg [ObjectId_isValid] v, escape v))"

text \<open>
  \<open>.default(d).trim().isInt()\<close> on a query value: an absent or empty value is replaced
  by the default number. The result is the number read from the text, or \<open>None\<close> for a
  text \<open>isInt\<close> rejects (the handler then answers 400 and never reads the value).
\<close>

definition read_query_int :: "int \<Rightarrow> string option \<Rightarrow> int option" where
  "read_query_int dflt raw =
     (case raw of
        None \<Rightarrow> Some dflt
      | Some s \<Rightarrow>
          if s = [] then Some dflt
          else if isInt (trim s) then Some (toNumber (trim s))
          else None)"

definition limit_sanitizer :: "int \<Rightarrow> int" where
  "limit_sanitizer v = (if v < 0 \<or> v > 20 then 0 else v)"

definition limit_chain :: "env \<Rightarrow> string option \<Rightarrow> verror + int" where
  "limit_chain e raw =
     (case read_query_int (MAX_DOCS_PER_FETCH e) raw of
        None \<Rightarrow> Inl (''limit'', ''Limit query must have valid format'')
      | Some v \<Rightarrow> Inr (limit_sanitizer v))"

text \<open>
  \<open>Math.ceil(docCount / MAX_DOCS_PER_FETCH)\<close>, and the comparison \<open>value > ...\<close>. With a
  page size of 0 the quotient is Infinity or NaN and the comparison is false.
\<close>

definition total_pages :: "int \<Rightarrow> nat \<Rightarrow> int" where
  "total_pages maxDocs docCount = - ((- int docCount) div maxDocs)"

definition beyond_last_page :: "int \<Rightarrow> nat \<Rightarrow> int \<Rightarrow> bool" where
  "beyond_last_page maxDocs docCount v = (maxDocs \<noteq> 0 \<and> v > total_pages maxDocs docCount)"

definition page_sanitizer :: "int \<Rightarrow> nat \<Rightarrow> int \<Rightarrow> int" where
  "page_sanitizer maxDocs docCount v =
     (if v < 0 \<or> beyond_last_page maxDocs docCount v then 0 else v - 1)"

definition page_chain :: "env \<Rightarrow> nat \<Rightarrow> string option \<Rightarrow> verror + int" where
  "page_chain e docCount raw =
     (case read_query_int 1 raw of
        None \<Rightarrow> Inl (''page'', ''Page query must have valid format'')
      | Some v \<Rightarrow> Inr (page_sanitizer (MAX_DOCS_PER_FETCH e) docCount v))"

definition chain_errors :: "verror + 'a \<Rightarrow> verror list" where
  "chain_errors r = (case r of Inl err \<Rightarrow> [err] | Inr _ \<Rightarrow> [])"

definition truthy :: "string option \<Rightarrow> bool" where
  "truthy v = (case v of None \<Rightarrow> False | Some s \<Rightarrow> s \<noteq> [])"

section \<open>The list handlers\<close>

record posts_request =
  q_limit :: "string option"
  q_page :: "string option"
  q_topic :: "string option"
  q_userid :: "string option"

record 'f find_call =
  fc_filter :: 'f
  fc_skip :: int
  fc_limit :: int

datatype 'q plan = Raise string | Reject "verror list" | Query 'q

text \<open>
  \<open>query('topic').optional().trim().escape().customSanitizer(..)\<close> of \<open>posts_get\<close>:
  the identifier of the topic of that name, else the value itself when it is an
  identifier, else nothing.
\<close>

definition posts_topic_sanitizer :: "store \<Rightarrow> string \<Rightarrow> string option" where
  "posts_topic_sanitizer st v =
     (case Topic_findOne_name st v of
        Some topicByName \<Rightarrow> Some (t_id topicByName)
      | None \<Rightarrow> if ObjectId_isValid v then Some v else None)"

definition posts_topic_chain :: "store \<Rightarrow> string option \<Rightarrow> string option" where
  "posts_topic_chain st raw =
     (case raw of None \<Rightarrow> None | Some s \<Rightarrow> posts_topic_sanitizer st (escape (trim s)))"

text \<open>
  \<open>posts_get\<close>, of the post controller that authenticates writers: the chains in order, then the
  handler. \<open>userid\<close> has no chain. With an empty error set both numbers are present,
  so the last case of the query is never taken. \<open>populate\<close> only expands the
  references of the posts in the answer and is left out.
\<close>

definition posts_get_query :: "env \<Rightarrow> store \<Rightarrow> posts_request \<Rightarrow> post_filter find_call plan" where
  "posts_get_query e st q =
     (let limit = limit_chain e (q_limit q);
          page = page_chain e (Post_countDocuments st) (q_page q);
          topic = posts_topic_chain st (q_topic q);
          userid = q_userid q;
          errors = chain_errors limit @ chain_errors page
      in if errors \<noteq> [] then Reject errors
         else (case (limit, page) of
                 (Inr limit', Inr page') \<Rightarrow>
                   Query \<lparr>fc_filter = \<lparr>f_topic = (if truthy topic then topic else None),
                                      f_author = (if truthy userid then userid else None)\<rparr>,
                          fc_skip = page' * MAX_DOCS_PER_FETCH e,
                          fc_limit = limit'\<rparr>
               | _ \<Rightarrow> Reject errors))"

definition posts_get :: "env \<Rightarrow> store \<Rightarrow> posts_request \<Rightarrow> post list response" where
  "posts_get e st q =
     (case posts_get_query e st q of
        Raise err \<Rightarrow> Thrown err
      | Reject errors \<Rightarrow> BadRequest errors
      | Query fc \<Rightarrow>
          (case Post_find st (fc_filter fc) (fc_skip fc) (fc_limit fc) of
             Inl err \<Rightarrow> Thrown err
           | Inr allPosts \<Rightarrow> Json allPosts))"

record comments_request =
  cq_limit :: "string option"
  cq_page :: "string option"

text \<open>
  \<open>comments_get\<close>: the page sanitizer throws when an earlier chain has recorded an
  error, so only an error of the page chain itself reaches the handler.
\<close>

definition comments_get_query ::
  "env \<Rightarrow> store \<Rightarrow> string \<Rightarrow> comments_request \<Rightarrow> string find_call plan" where
  "comments_get_query e st postid q =
     (let (id_errors, postid') = id_param ''postid'' ''Post id must be valid'' postid;
          limit = limit_chain e (cq_limit q);
          earlier = id_errors @ chain_errors limit
      in if earlier \<noteq> [] then Raise ''An error has occurred during sanitization''
         else
           (let page = page_chain e (Comment_countDocuments st postid') (cq_page q);
                errors = earlier @ chain_errors page
            in if errors \<noteq> [] then Reject errors
               else (case (limit, page) of
                       (Inr limit', Inr page') \<Rightarrow>
                         Query \<lparr>fc_filter = postid',
                                fc_skip = page' * MAX_DOCS_PER_FETCH e,
                                fc_limit = limit'\<rparr>
                     | _ \<Rightarrow> Reject errors)))"

definition comments_get :: "env \<Rightarrow> store \<Rightarrow> string \<Rightarrow> comments_request \<Rightarrow> comment list response" where
  "comments_get e st postid q =
     (case comments_get_query e st postid q of
        Raise err \<Rightarrow> Thrown err
      | Reject errors \<Rightarrow> BadRequest errors
      | Query fc \<Rightarrow>
          (case Comment_find st (fc_filter fc) (fc_skip fc) (fc_limit fc) of
             Inl err \<Rightarrow> Thrown err
           | Inr None \<Rightarrow> NotFound
           | Inr (Some allCommentsByPost) \<Rightarrow> Json allCommentsByPost))"

section \<open>Chains on body fields\<close>

text \<open>
  A chain without \<open>optional()\<close> reads an absent field as the empty text; a chain
  with \<open>optional()\<close> is skipped for an absent field and leaves it undefined.
  No validator stops a chain: each failing one adds an error.
\<close>

definition required_field ::
  "string \<Rightarrow> string \<Rightarrow> (string \<Rightarrow> bool) list \<Rightarrow> string option \<Rightarrow> verror list \<times> string" where
  "required_field field msg validators raw =
     (let v = trim (case raw of None \<Rightarrow> [] | Some s \<Rightarrow> s) in (check field msg validators v, v))"

definition optional_field ::
  "string \<Rightarrow> string \<Rightarrow> (string \<Rightarrow> bool) list \<Rightarrow> string option \<Rightarrow> verror list \<times> string option" where
  "optional_field field msg validators raw =
     (case raw of
        None \<Rightarrow> ([], None)
      | Some s \<Rightarrow> (let v = trim s in (check field msg validators v, Some v)))"

section \<open>The comment handlers\<close>

record comment_body =
  b_email :: "string option"
  b_title :: "string option"
  b_body :: "string option"

text \<open>
  Saving a new comment runs the schema's validators (all fields required, the length
  bounds of models/comment) and throws when one fails.
\<close>

definition comment_schema_ok :: "comment \<Rightarrow> bool" where
  "comment_schema_ok c =
     (isLength 3 (Some 100) (c_email c) \<and> isLength 3 (Some 100) (c_title c)
      \<and> isLength 10 (Some 280) (c_body c))"

definition Comment_save :: "store \<Rightarrow> comment \<Rightarrow> string + store" where
  "Comment_save st c =
     (if comment_schema_ok c then Inr (st\<lparr>Comment_coll := Comment_coll st @ [c]\<rparr>)
      else Inl ''ValidationError'')"

text \<open>Saving a loaded post writes it back under its identifier.\<close>

definition Post_save :: "store \<Rightarrow> post \<Rightarrow> store" where
  "Post_save st p =
     st\<lparr>Post_coll := map (\<lambda>q. if p_id q = p_id p then p else q) (Post_coll st)\<rparr>"

definition comment_post_chains ::
  "env \<Rightarrow> string \<Rightarrow> comment_body \<Rightarrow> verror list \<times> string \<times> string \<times> string \<times> string" where
  "comment_post_chains e postid b =
     (let (e1, postid') = id_param ''postid'' ''Post id must be valid'' postid;
          (e2, email) = required_field ''email'' ''Email must have correct format''
                          [isEmail e, isLength 3 (Some 100)] (b_email b);
          (e3, title) = required_field ''title'' ''Title must have correct length''
                          [isLength 3 (Some 100)] (b_title b);
          (e4, body) = required_field ''body'' ''Comment body must have correct length''
                          [isLength 10 None] (b_body b)
      in (e1 @ e2 @ e3 @ e4, postid', email, title, body))"

text \<open>
  \<open>comment_post\<close>. The identifier of the new comment and the current date come from
  outside the program and are arguments.
\<close>

definition comment_post ::
  "env \<Rightarrow> store \<Rightarrow> oid \<Rightarrow> date \<Rightarrow> string \<Rightarrow> comment_body \<Rightarrow> comment response \<times> store" where
  "comment_post e st new_id now postid b =
     (let (errors, postid', email, title, body) = comment_post_chains e postid b
      in if errors \<noteq> [] then (BadRequest errors, st)
         else (case Post_findById st postid' of
                 Inl err \<Rightarrow> (Thrown err, st)
               | Inr None \<Rightarrow> (NotFound, st)
               | Inr (Some post) \<Rightarrow>
                   (let newComment = \<lparr>c_id = new_id, c_post = ObjectId postid', c_email = email,
                                      c_title = title, c_body = body, c_date = now\<rparr>
                    in case Comment_save st newComment of
                         Inl err \<Rightarrow> (Thrown err, st)
                       | Inr st' \<Rightarrow>
                           (Json newComment,
                            Post_save st' (post\<lparr>p_comments := p_comments post @ [c_id newComment]\<rparr>)))))"

record comment_update =
  u_email :: "string option"
  u_title :: "string option"
  u_body :: "string option"

definition apply_comment_update :: "comment_update \<Rightarrow> comment \<Rightarrow> comment" where
  "apply_comment_update u c =
     c\<lparr>c_email := (case u_email u of None \<Rightarrow> c_email c | Some v \<Rightarrow> v),
       c_title := (case u_title u of None \<Rightarrow> c_title c | Some v \<Rightarrow> v),
       c_body := (case u_body u of None \<Rightarrow> c_body c | Some v \<Rightarrow> v)\<rparr>"

fun update_first :: "('a \<Rightarrow> bool) \<Rightarrow> ('a \<Rightarrow> 'a) \<Rightarrow> 'a list \<Rightarrow> 'a list" where
  "update_first P f [] = []"
| "update_first P f (x # xs) = (if P x then f x # xs else x # update_first P f xs)"

text \<open>
  \<open>Comment.findOneAndUpdate({_id, post}, detail, {new: true})\<close>: the first match is
  updated with the fields that are present (no schema validators run) and returned.
\<close>

definition Comment_findOneAndUpdate ::
  "store \<Rightarrow> string \<Rightarrow> string \<Rightarrow> comment_update \<Rightarrow> string + (comment option \<times> store)" where
  "Comment_findOneAndUpdate st commentid postid u =
     (if \<not> (ObjectId_isValid commentid \<and> ObjectId_isValid postid) then Inl ''CastError''
      else (let hit = (\<lambda>c. c_id c = ObjectId commentid \<and> c_post c = ObjectId postid)
            in case find hit (Comment_coll st) of
                 None \<Rightarrow> Inr (None, st)
               | Some c \<Rightarrow>
                   Inr (Some (apply_comment_update u c),
                        st\<lparr>Comment_coll := update_first hit (apply_comment_update u) (Comment_coll st)\<rparr>)))"

definition comment_put_chains ::
  "env \<Rightarrow> string \<Rightarrow> string \<Rightarrow> comment_body \<Rightarrow> verror list \<times> string \<times> string \<times> comment_update" where
  "comment_put_chains e postid commentid b =
     (let (e1, postid') = id_param ''postid'' ''Post id must be valid'' postid;
          (e2, commentid') = id_param ''commentid'' ''Comment id must be valid'' commentid;
          (e3, email) = optional_field ''email'' ''Email must have correct format''
                          [isEmail e, isLength 3 (Some 10)] (b_email b);
          (e4, title) = optional_field ''title'' ''Title must have correct length''
                          [isLength 3 (Some 100)] (b_title b);
          (e5, body) = optional_field ''body'' ''Comment body must have correct length''
                          [isLength 10 None] (b_body b)
      in (e1 @ e2 @ e3 @ e4 @ e5, postid', commentid',
          \<lparr>u_email = email, u_title = title, u_body = body\<rparr>))"

text \<open>
  \<open>comment_put\<close> tests \<open>!errors.array()\<close>. In JavaScript every array is truthy,
  the empty one too.
\<close>

definition array_truthy :: "'a list \<Rightarrow> bool" where
  "array_truthy xs = True"

definition comment_put ::
  "env \<Rightarrow> store \<Rightarrow> string \<Rightarrow> string \<Rightarrow> comment_body \<Rightarrow> comment response \<times> store" where
  "comment_put e st postid commentid b =
     (let (errors, postid', commentid', commentDetail) = comment_put_chains e postid commentid b
      in if \<not> array_truthy errors then (BadRequest errors, st)
         else (case Comment_findOneAndUpdate st commentid' postid' commentDetail of
                 Inl err \<Rightarrow> (Thrown err, st)
               | Inr (None, _) \<Rightarrow> (NotFound, st)
               | Inr (Some updatedComment, st') \<Rightarrow> (Json updatedComment, st')))"

section \<open>The post handlers behind authentication\<close>

record post_body =
  pb_title :: "string option"
  pb_body :: "string option"
  pb_topic :: "string option"

text \<open>
  \<open>body('topic').optional().trim().custom(..).escape()\<close> of \<open>post_put\<close>: the value
  must be the identifier of a stored topic.
\<close>

definition put_topic_chain :: "store \<Rightarrow> string option \<Rightarrow> verror list \<times> string option" where
  "put_topic_chain st raw =
     (case raw of
        None \<Rightarrow> ([], None)
      | Some s \<Rightarrow>
          (let v = trim s
           in ((if \<not> ObjectId_isValid v then [(''topic'', ''Invalid topic id'')]
                else if Topic_findOne_id st v = None then [(''topic'', ''Invalid topic'')]
                else []),
               Some (escape v))))"

definition post_put_chains ::
  "store \<Rightarrow> string \<Rightarrow> post_body \<Rightarrow> verror list \<times> string \<times> post_body" where
  "post_put_chains st postid b =
     (let (e1, postid') = id_param ''postid'' ''Post id must be valid'' postid;
          (e2, title) = optional_field ''title'' ''Title must have correct length''
                          [isLength 3 (Some 100)] (pb_title b);
          (e3, body) = optional_field ''body'' ''Post body must have correct length''
                          [isLength 100 (Some 10000)] (pb_body b);
          (e4, topic) = put_topic_chain st (pb_topic b)
      in (e1 @ e2 @ e3 @ e4, postid', \<lparr>pb_title = title, pb_body = body, pb_topic = topic\<rparr>))"

definition apply_post_update :: "post_body \<Rightarrow> post \<Rightarrow> post" where
  "apply_post_update u p =
     p\<lparr>p_title := (case pb_title u of None \<Rightarrow> p_title p | Some v \<Rightarrow> v),
       p_body := (case pb_body u of None \<Rightarrow> p_body p | Some v \<Rightarrow> v),
       p_topic := (case pb_topic u of None \<Rightarrow> p_topic p | Some v \<Rightarrow> ObjectId v)\<rparr>"

text \<open>
  \<open>Post.findByIdAndUpdate(id, detail, {new: true, runValidators: true})\<close>. The update
  validators of the Post schema see only the fields the chains have already bounded.
\<close>

definition Post_findByIdAndUpdate ::
  "store \<Rightarrow> string \<Rightarrow> post_body \<Rightarrow> string + (post option \<times> store)" where
  "Post_findByIdAndUpdate st postid u =
     (if \<not> ObjectId_isValid postid then Inl ''CastError''
      else (let hit = (\<lambda>p. p_id p = ObjectId postid)
            in case find hit (Post_coll st) of
                 None \<Rightarrow> Inr (None, st)
               | Some p \<Rightarrow>
                   Inr (Some (apply_post_update u p),
                        st\<lparr>Post_coll := update_first hit (apply_post_update u) (Post_coll st)\<rparr>)))"

text \<open>
  \<open>post_put\<close> and \<open>post_delete\<close>. \<open>user\<close> is the identifier of the principal that
  \<open>passport.authenticate\<close> attached to the request, \<open>None\<close> when it rejected the
  credential (it then answers 401 itself). \<open>post_put\<close> sends whatever the update
  returns, a post or \<open>null\<close>.
\<close>

definition post_put ::
  "store \<Rightarrow> oid option \<Rightarrow> string \<Rightarrow> post_body \<Rightarrow> post option response \<times> store" where
  "post_put st user postid b =
     (case user of
        None \<Rightarrow> (Unauthorized, st)
      | Some user_id \<Rightarrow>
          (let (errors, postid', postDetail) = post_put_chains st postid b
           in if errors \<noteq> [] then (BadRequest errors, st)
              else (case Post_findById st postid' of
                      Inl err \<Rightarrow> (Thrown err, st)
                    | Inr None \<Rightarrow> (NotFound, st)
                    | Inr (Some postById) \<Rightarrow>
                        if p_author postById \<noteq> user_id then (Forbidden, st)
                        else (case Post_findByIdAndUpdate st postid' postDetail of
                                Inl err \<Rightarrow> (Thrown err, st)
                              | Inr (updatedPost, st') \<Rightarrow> (Json updatedPost, st')))))"

definition post_delete_chains :: "string \<Rightarrow> verror list \<times> string" where
  "post_delete_chains postid = id_param ''postid'' ''Post id must be valid'' postid"

definition post_delete :: "store \<Rightarrow> oid option \<Rightarrow> string \<Rightarrow> post response \<times> store" where
  "post_delete st user postid =
     (case user of
        None \<Rightarrow> (Unauthorized, st)
      | Some user_id \<Rightarrow>
          (let (errors, postid') = post_delete_chains postid
           in if errors \<noteq> [] then (BadRequest errors, st)
              else (case Post_findById st postid' of
                      Inl err \<Rightarrow> (Thrown err, st)
                    | Inr None \<Rightarrow> (NotFound, st)
                    | Inr (Some postById) \<Rightarrow>
                        if p_author postById \<noteq> user_id then (Forbidden, st)
                        else (Json postById, st\<lparr>Post_coll := remove1 postById (Post_coll st)\<rparr>))))"

section \<open>The topic resolver of post creation\<close>



section \<open>Statements taken from the specification\<close>

text \<open>
  The page formula in the specification's words: \<open>page - 1\<close> if
  \<open>0 \<le> page - 1 \<le> totalPages\<close>, else \<open>0\<close>.
\<close>

definition spec_effectivePage :: "int \<Rightarrow> int \<Rightarrow> int" where
  "spec_effectivePage page totalPages =
     (if 0 \<le> page - 1 \<and> page - 1 \<le> totalPages then page - 1 else 0)"

text \<open>The page index the handlers compute for a page number other than 0.\<close>

definition resolved_page :: "int \<Rightarrow> nat \<Rightarrow> int \<Rightarrow> int" where
  "resolved_page maxDocs docCount v =
     (if 1 \<le> v \<and> v \<le> total_pages maxDocs docCount then v - 1 else 0)"

text \<open>
  The invariant of the data model: the post reference of every stored comment names a
  stored post.
\<close>

definition comment_refs_exist :: "store \<Rightarrow> bool" where
  "comment_refs_exist st = list_all (\<lambda>c. post_by_id st (c_post c) \<noteq> None) (Comment_coll st)"

section \<open>Example data\<close>

definition example_env :: env where
  "example_env = \<lparr>MAX_DOCS_PER_FETCH = 2, isEmail = (\<lambda>s. CHR ''@'' \<in> set s)\<rparr>"

definition example_post1 :: post where
  "example_post1 = \<lparr>p_id = ''0000000000000000000000a1'', p_author = ''0000000000000000000000b1'',
     p_title = ''Hello World'', p_body = ''first'', p_topic = ''0000000000000000000000c1'',
     p_date = 1, p_comments = []\<rparr>"

definition example_post2 :: post where
  "example_post2 = \<lparr>p_id = ''0000000000000000000000a2'', p_author = ''0000000000000000000000b2'',
     p_title = ''Second post'', p_body = ''second'', p_topic = ''0000000000000000000000c2'',
     p_date = 2, p_comments = []\<rparr>"

definition example_post3 :: post where
  "example_post3 = \<lparr>p_id = ''0000000000000000000000a3'', p_author = ''0000000000000000000000b1'',
     p_title = ''Third post'', p_body = ''third'', p_topic = ''0000000000000000000000c1'',
     p_date = 3, p_comments = []\<rparr>"

definition example_store :: store where
  "example_store = \<lparr>Post_coll = [example_post1, example_post2, example_post3], Comment_coll = [],
     Topic_coll = [\<lparr>t_id = ''0000000000000000000000c1'', t_name = ''news''\<rparr>,
                   \<lparr>t_id = ''0000000000000000000000c2'', t_name = ''sport''\<rparr>]\<rparr>"

definition example_comment :: comment where
  "example_comment = \<lparr>c_id = ''0000000000000000000000d1'', c_post = ''0000000000000000000000a1'',
     c_email = ''reader@example.org'', c_title = ''Nice post'',
     c_body = ''A comment that is long enough'', c_date = 7\<rparr>"

definition example_comment_body :: comment_body where
  "example_comment_body = \<lparr>b_email = Some ''reader@example.org'', b_title = Some ''Nice post'',
     b_body = Some ''A comment that is long enough''\<rparr>"

text \<open>
  The example store after a comment on the first post, and after the author of that
  post has then deleted it.
\<close>

definition example_commented_store :: store where
  "example_commented_store =
     snd (comment_post example_env example_store ''0000000000000000000000d1'' 7
            ''0000000000000000000000a1'' example_comment_body)"

definition example_orphan_store :: store where
  "example_orphan_store =
     snd (post_delete example_commented_store (Some ''0000000000000000000000b1'')
            ''0000000000000000000000a1'')"

definition example_bad_update :: comment_body where
  "example_bad_update = \<lparr>b_email = None, b_title = Some ''ab'', b_body = None\<rparr>"

section \<open>Evaluation and helper lemmas\<close>

lemmas text_defs = trim_def is_space_def escape_def escape_char_def isInt_def is_digit_def
  toNumber_def digits_value_def digit_value_def isLength_def ObjectId_isValid_def is_hex_def
  ObjectId_def hex_lower_def

lemmas chain_defs = read_query_int_def limit_chain_def limit_sanitizer_def page_chain_def
  page_sanitizer_def beyond_last_page_def total_pages_def chain_errors_def truthy_def
  id_param_def check_def required_field_def optional_field_def

lemmas store_defs = post_by_id_def Post_findById_def Post_countDocuments_def
  Comment_countDocuments_def Topic_findOne_name_def Topic_findOne_id_def apply_limit_def
  window_def cast_ok_def field_matches_def post_matches_def Post_find_def Comment_find_def

lemmas example_defs = example_env_def example_store_def example_post1_def example_post2_def
  example_post3_def

lemma total_pages_upper:
  assumes "0 < m" shows "(total_pages m d - 1) * m < int d"
proof -
  have eq: "- int d = ((- int d) div m) * m + (- int d) mod m" by simp
  have r: "(- int d) mod m < m" using assms by simp
  have "(total_pages m d - 1) * m = - (((- int d) div m) * m) - m"
    by (simp add: total_pages_def algebra_simps)
  also have "\<dots> = int d + (- int d) mod m - m" using eq by linarith
  also have "\<dots> < int d" using r by linarith
  finally show ?thesis .
qed

lemma total_pages_nonneg: "0 < m \<Longrightarrow> 0 \<le> total_pages m d"
  by (simp add: total_pages_def div_nonpos_pos_le0)

lemma escape_char_hex: "is_hex c \<Longrightarrow> escape_char c = [c]"
  by (auto simp: is_hex_def escape_char_def)

lemma escape_hex: "list_all is_hex v \<Longrightarrow> escape v = v"
  by (induction v) (simp_all add: escape_def escape_char_hex)

lemma escape_valid: "ObjectId_isValid v \<Longrightarrow> escape v = v"
  by (simp add: ObjectId_isValid_def escape_hex)

lemma id_param_valid:
  "ObjectId_isValid (trim raw) \<Longrightarrow> id_param field msg raw = ([], trim raw)"
  by (simp add: id_param_def check_def escape_valid)

lemma id_param_invalid:
  "\<not> ObjectId_isValid (trim raw) \<Longrightarrow> fst (id_param field msg raw) = [(field, msg)]"
  by (simp add: id_param_def check_def)

lemma page_sanitizer_skip_bounds:
  assumes "0 < m" and "1 \<le> v"
  shows "0 \<le> page_sanitizer m d v * m \<and> page_sanitizer m d v * m < int d + m"
proof (cases "beyond_last_page m d v")
  case True
  then show ?thesis using assms by (simp add: page_sanitizer_def)
next
  case False
  then have le: "v \<le> total_pages m d" using assms by (simp add: beyond_last_page_def)
  have ps: "page_sanitizer m d v = v - 1" using False assms by (simp add: page_sanitizer_def)
  have "(v - 1) * m \<le> (total_pages m d - 1) * m"
    using le assms by (simp add: mult_right_mono)
  also have "\<dots> < int d" by (rule total_pages_upper[OF assms(1)])
  finally have "(v - 1) * m < int d" .
  moreover have "0 \<le> (v - 1) * m" using assms by simp
  ultimately show ?thesis using ps assms by simp
qed

lemma posts_get_query_valid:
  assumes "read_query_int (MAX_DOCS_PER_FETCH e) (q_limit q) = Some l"
    and "read_query_int 1 (q_page q) = Some v"
  shows "posts_get_query e st q =
     Query \<lparr>fc_filter = \<lparr>f_topic = (if truthy (posts_topic_chain st (q_topic q))
                                     then posts_topic_chain st (q_topic q) else None),
                         f_author = (if truthy (q_userid q) then q_userid q else None)\<rparr>,
            fc_skip = page_sanitizer (MAX_DOCS_PER_FETCH e) (Post_countDocuments st) v
                        * MAX_DOCS_PER_FETCH e,
            fc_limit = limit_sanitizer l\<rparr>"
  using assms
  by (simp add: posts_get_query_def limit_chain_def page_chain_def chain_errors_def)

lemma comments_get_query_valid:
  assumes "ObjectId_isValid (trim postid)"
    and "read_query_int (MAX_DOCS_PER_FETCH e) (cq_limit q) = Some l"
    and "read_query_int 1 (cq_page q) = Some v"
  shows "comments_get_query e st postid q =
     Query \<lparr>fc_filter = trim postid,
            fc_skip = page_sanitizer (MAX_DOCS_PER_FETCH e)
                        (Comment_countDocuments st (trim postid)) v * MAX_DOCS_PER_FETCH e,
            fc_limit = limit_sanitizer l\<rparr>"
  using assms
  by (simp add: comments_get_query_def id_param_valid limit_chain_def page_chain_def
      chain_errors_def)

lemma posts_get_query_Query:
  assumes "posts_get_query e st q = Query fc"
  shows "\<exists>l v. read_query_int (MAX_DOCS_PER_FETCH e) (q_limit q) = Some l
             \<and> read_query_int 1 (q_page q) = Some v"
  using assms
  by (auto simp: posts_get_query_def limit_chain_def page_chain_def chain_errors_def Let_def
      split: option.splits if_splits)

lemma comments_get_query_Query:
  assumes "comments_get_query e st postid q = Query fc"
  shows "ObjectId_isValid (trim postid)
         \<and> (\<exists>l v. read_query_int (MAX_DOCS_PER_FETCH e) (cq_limit q) = Some l
                 \<and> read_query_int 1 (cq_page q) = Some v)"
proof (cases "ObjectId_isValid (trim postid)")
  case False
  then show ?thesis using assms
    by (simp add: comments_get_query_def id_param_def check_def Let_def)
next
  case True
  then show ?thesis using assms
    by (auto simp: comments_get_query_def id_param_valid limit_chain_def page_chain_def
        chain_errors_def Let_def split: option.splits if_splits)
qed

lemma page_sanitizer_resolved:
  "0 < m \<Longrightarrow> v \<noteq> 0 \<Longrightarrow> page_sanitizer m d v = resolved_page m d v"
  by (auto simp: page_sanitizer_def beyond_last_page_def resolved_page_def)

lemma resolved_page_range:
  "0 \<le> resolved_page m d v \<and> resolved_page m d v < max 1 (total_pages m d)"
  by (auto simp: resolved_page_def)


lemma id_param_cases:
  "id_param field msg raw =
     (if ObjectId_isValid (trim raw) then ([], trim raw) else ([(field, msg)], escape (trim raw)))"
  by (simp add: id_param_def check_def escape_valid)

lemma post_put_chains_ok:
  assumes "fst (post_put_chains st postid b) = []"
  shows "ObjectId_isValid (trim postid) \<and> fst (snd (post_put_chains st postid b)) = trim postid"
  using assms
  by (auto simp: post_put_chains_def id_param_cases split_beta Let_def split: if_splits)

lemma post_put_rejects:
  assumes "fst (post_put_chains st postid b) \<noteq> []"
  shows "post_put st (Some u) postid b = (BadRequest (fst (post_put_chains st postid b)), st)"
  using assms by (simp add: post_put_def split_beta)

lemma post_put_absent:
  assumes "fst (post_put_chains st postid b) = []"
    and "post_by_id st (ObjectId (trim postid)) = None"
  shows "post_put st (Some u) postid b = (NotFound, st)"
  using assms post_put_chains_ok[OF assms(1)]
  by (simp add: post_put_def split_beta Post_findById_def)

lemma post_put_not_owner:
  assumes "fst (post_put_chains st postid b) = []"
    and "post_by_id st (ObjectId (trim postid)) = Some p" and "p_author p \<noteq> u"
  shows "post_put st (Some u) postid b = (Forbidden, st)"
  using assms post_put_chains_ok[OF assms(1)]
  by (simp add: post_put_def split_beta Post_findById_def)

lemma post_delete_chains_ok:
  assumes "fst (post_delete_chains postid) = []"
  shows "ObjectId_isValid (trim postid) \<and> snd (post_delete_chains postid) = trim postid"
  using assms by (auto simp: post_delete_chains_def id_param_cases split: if_splits)

lemma post_delete_absent:
  assumes "fst (post_delete_chains postid) = []"
    and "post_by_id st (ObjectId (trim postid)) = None"
  shows "post_delete st (Some u) postid = (NotFound, st)"
  using assms post_delete_chains_ok[OF assms(1)]
  by (simp add: post_delete_def split_beta Post_findById_def)

lemma post_delete_not_owner:
  assumes "fst (post_delete_chains postid) = []"
    and "post_by_id st (ObjectId (trim postid)) = Some p" and "p_author p \<noteq> u"
  shows "post_delete st (Some u) postid = (Forbidden, st)"
  using assms post_delete_chains_ok[OF assms(1)]
  by (simp add: post_delete_def split_beta Post_findById_def)

lemma comment_post_chains_ok:
  assumes "fst (comment_post_chains e postid b) = []"
  shows "ObjectId_isValid (trim postid) \<and> fst (snd (comment_post_chains e postid b)) = trim postid"
  using assms
  by (auto simp: comment_post_chains_def id_param_cases split_beta Let_def split: if_splits)

lemma find_replace_by_id:
  "find (\<lambda>q. p_id q = j) (map (\<lambda>q. if p_id q = p_id p' then p' else q) xs)
     = (case find (\<lambda>q. p_id q = j) xs of
          None \<Rightarrow> None
        | Some q \<Rightarrow> Some (if j = p_id p' then p' else q))"
  by (induction xs) auto

lemma post_by_id_Post_save:
  "post_by_id (Post_save st p') j
     = (case post_by_id st j of None \<Rightarrow> None | Some q \<Rightarrow> Some (if j = p_id p' then p' else q))"
  by (simp add: post_by_id_def Post_save_def find_replace_by_id)

lemma post_by_id_has_id: "post_by_id st i = Some p \<Longrightarrow> p_id p = i"
  by (auto simp: post_by_id_def find_Some_iff)

lemma post_by_id_comments_irrelevant [simp]:
  "post_by_id (st\<lparr>Comment_coll := cs\<rparr>) i = post_by_id st i"
  by (simp add: post_by_id_def)

lemma comment_post_rejects:
  assumes "fst (comment_post_chains e postid b) \<noteq> []"
  shows "comment_post e st new_id now postid b
           = (BadRequest (fst (comment_post_chains e postid b)), st)"
  using assms by (simp add: comment_post_def split_beta)

lemma comment_post_absent:
  assumes "fst (comment_post_chains e postid b) = []"
    and "post_by_id st (ObjectId (trim postid)) = None"
  shows "comment_post e st new_id now postid b = (NotFound, st)"
  using assms comment_post_chains_ok[OF assms(1)]
  by (simp add: comment_post_def split_beta Post_findById_def)

lemma comment_post_Json:
  assumes "fst (comment_post e st new_id now postid b) = Json c"
  shows "\<exists>post. fst (comment_post_chains e postid b) = []
           \<and> post_by_id st (ObjectId (trim postid)) = Some post
           \<and> c_id c = new_id \<and> c_post c = ObjectId (trim postid)
           \<and> snd (comment_post e st new_id now postid b)
               = Post_save (st\<lparr>Comment_coll := Comment_coll st @ [c]\<rparr>)
                   (post\<lparr>p_comments := p_comments post @ [c_id c]\<rparr>)"
proof (cases "fst (comment_post_chains e postid b) = []")
  case False
  from comment_post_rejects[OF False] assms show ?thesis by simp
next
  case True
  note ok = comment_post_chains_ok[OF True]
  show ?thesis
  proof (cases "post_by_id st (ObjectId (trim postid))")
    case None
    from comment_post_absent[OF True None] assms show ?thesis by simp
  next
    case (Some post)
    then show ?thesis using assms True ok
      by (auto simp: comment_post_def split_beta Post_findById_def Comment_save_def Let_def
          split: if_splits)
  qed
qed

lemma comment_post_store_cases:
  "snd (comment_post e st new_id now postid b) = st
   \<or> (\<exists>c. fst (comment_post e st new_id now postid b) = Json c)"
  by (auto simp: comment_post_def split_beta Post_findById_def Comment_save_def Let_def
      split: if_splits option.splits sum.splits)

lemmas more_example_defs = example_comment_def example_comment_body_def

lemma example_comment_post:
  "comment_post example_env example_store ''0000000000000000000000d1'' 7
     ''0000000000000000000000a1'' example_comment_body
   = (Json example_comment,
      \<lparr>Post_coll = [example_post1\<lparr>p_comments := [''0000000000000000000000d1'']\<rparr>,
                    example_post2, example_post3],
       Comment_coll = [example_comment],
       Topic_coll = Topic_coll example_store\<rparr>)"
  by (simp add: comment_post_def comment_post_chains_def Comment_save_def comment_schema_ok_def
      Post_save_def Let_def text_defs chain_defs store_defs example_defs more_example_defs)

lemma example_commented_store_eq:
  "example_commented_store =
      \<lparr>Post_coll = [example_post1\<lparr>p_comments := [''0000000000000000000000d1'']\<rparr>,
                    example_post2, example_post3],
       Comment_coll = [example_comment],
       Topic_coll = Topic_coll example_store\<rparr>"
  by (simp add: example_commented_store_def example_comment_post)

lemma example_post_delete:
  "post_delete example_commented_store (Some ''0000000000000000000000b1'')
     ''0000000000000000000000a1''
   = (Json (example_post1\<lparr>p_comments := [''0000000000000000000000d1'']\<rparr>),
      \<lparr>Post_coll = [example_post2, example_post3],
       Comment_coll = [example_comment],
       Topic_coll = Topic_coll example_store\<rparr>)"
  by (simp add: example_commented_store_eq post_delete_def post_delete_chains_def
      text_defs chain_defs store_defs example_defs)

lemma example_orphan_store_eq:
  "example_orphan_store =
      \<lparr>Post_coll = [example_post2, example_post3],
       Comment_coll = [example_comment],
       Topic_coll = Topic_coll example_store\<rparr>"
  by (simp add: example_orphan_store_def example_post_delete)

lemma Comment_find_defined: "Comment_find st postid n l \<noteq> Inr None"
  by (simp add: Comment_find_def split: sum.splits)

lemma comments_get_not_NotFound: "comments_get e st postid q \<noteq> NotFound"
  using Comment_find_defined
  by (auto simp: comments_get_def split: plan.splits sum.splits option.splits)

lemma page_sanitizer_no_documents:
  "v \<noteq> 0 \<Longrightarrow> page_sanitizer m 0 v * m = 0"
  by (auto simp: page_sanitizer_def beyond_last_page_def total_pages_def)

section \<open>Pagination\<close>

text \<open>
  C2, as the specification states it, fails where the requested page is one past the
  last: with 3 documents and 2 per page there are 2 pages, page 3 resolves to index 0,
  and the specification's formula gives index 2.
\<close>

theorem page_beyond_last_is_not_spec_formula:
  "page_chain example_env 3 (Some ''3'') = Inr 0
   \<and> spec_effectivePage 3 (total_pages (MAX_DOCS_PER_FETCH example_env) 3) = 2"
  by (simp add: text_defs chain_defs example_env_def spec_effectivePage_def)

text \<open>Page 0 passes the lower check and is decremented.\<close>

lemma page_zero_resolves_below_zero:
  "page_chain example_env 3 (Some ''0'') = Inr (- 1)"
  by (simp add: text_defs chain_defs example_env_def)

text \<open>
  C2 (amended). With a positive page size, for every integer page value other than 0
  and every document count, the page chain yields \<open>page - 1\<close> when
  \<open>1 \<le> page \<le> totalPages\<close> and \<open>0\<close> otherwise (a negative page, or a page beyond
  the last one, degrades to index 0 without an error). The index is at least 0 and below
  \<open>max 1 totalPages\<close>. Both list handlers use it: the skip of the store query of
  \<open>posts_get\<close> and of \<open>comments_get\<close> is this index times the page size, each with
  its own document count.
\<close>

theorem page_index_resolved:
  assumes m: "0 < MAX_DOCS_PER_FETCH e"
    and page: "read_query_int 1 rp = Some v" "v \<noteq> 0"
  shows "page_chain e d rp = Inr (resolved_page (MAX_DOCS_PER_FETCH e) d v)
       \<and> 0 \<le> resolved_page (MAX_DOCS_PER_FETCH e) d v
       \<and> resolved_page (MAX_DOCS_PER_FETCH e) d v < max 1 (total_pages (MAX_DOCS_PER_FETCH e) d)
       \<and> (\<forall>fc. posts_get_query e st \<lparr>q_limit = rl, q_page = rp, q_topic = t, q_userid = u\<rparr> = Query fc
              \<longrightarrow> fc_skip fc = resolved_page (MAX_DOCS_PER_FETCH e) (Post_countDocuments st) v
                                * MAX_DOCS_PER_FETCH e)
       \<and> (\<forall>fc. comments_get_query e st postid \<lparr>cq_limit = rl, cq_page = rp\<rparr> = Query fc
              \<longrightarrow> fc_skip fc = resolved_page (MAX_DOCS_PER_FETCH e)
                                  (Comment_countDocuments st (fc_filter fc)) v
                                * MAX_DOCS_PER_FETCH e)"
proof (intro conjI allI impI)
  show "page_chain e d rp = Inr (resolved_page (MAX_DOCS_PER_FETCH e) d v)"
    using page by (simp add: page_chain_def page_sanitizer_resolved[OF m])
  show "0 \<le> resolved_page (MAX_DOCS_PER_FETCH e) d v"
    and "resolved_page (MAX_DOCS_PER_FETCH e) d v < max 1 (total_pages (MAX_DOCS_PER_FETCH e) d)"
    using resolved_page_range by blast+
next
  fix fc
  let ?q = "\<lparr>q_limit = rl, q_page = rp, q_topic = t, q_userid = u\<rparr>"
  assume q: "posts_get_query e st ?q = Query fc"
  from posts_get_query_Query[OF q] obtain l
    where l: "read_query_int (MAX_DOCS_PER_FETCH e) (q_limit ?q) = Some l" by blast
  have "read_query_int 1 (q_page ?q) = Some v" using page by simp
  from posts_get_query_valid[OF l this, of st] q
  show "fc_skip fc = resolved_page (MAX_DOCS_PER_FETCH e) (Post_countDocuments st) v
                       * MAX_DOCS_PER_FETCH e"
    using page_sanitizer_resolved[OF m page(2)] by auto
next
  fix fc
  let ?q = "\<lparr>cq_limit = rl, cq_page = rp\<rparr>"
  assume q: "comments_get_query e st postid ?q = Query fc"
  from comments_get_query_Query[OF q] obtain l
    where valid: "ObjectId_isValid (trim postid)"
      and l: "read_query_int (MAX_DOCS_PER_FETCH e) (cq_limit ?q) = Some l" by blast
  have "read_query_int 1 (cq_page ?q) = Some v" using page by simp
  from comments_get_query_valid[OF valid l this, of st] q
  show "fc_skip fc = resolved_page (MAX_DOCS_PER_FETCH e)
                       (Comment_countDocuments st (fc_filter fc)) v * MAX_DOCS_PER_FETCH e"
    using page_sanitizer_resolved[OF m page(2)] by auto
qed

theorem page_index_resolved_witness:
  "0 < MAX_DOCS_PER_FETCH example_env \<and> read_query_int 1 (Some ''3'') = Some 3 \<and> (3::int) \<noteq> 0
   \<and> page_chain example_env 3 (Some ''3'') = Inr 0
   \<and> page_chain example_env 5 (Some ''3'') = Inr 2"
proof -
  have m: "0 < MAX_DOCS_PER_FETCH example_env" by (simp add: example_env_def)
  have p: "read_query_int 1 (Some ''3'') = Some 3" by (simp add: text_defs chain_defs)
  have n: "(3::int) \<noteq> 0" by simp
  have "page_chain example_env 3 (Some ''3'') = Inr 0"
    using page_index_resolved[OF m p n, of 3]
    by (simp add: resolved_page_def total_pages_def example_env_def)
  moreover have "page_chain example_env 5 (Some ''3'') = Inr 2"
    using page_index_resolved[OF m p n, of 5]
    by (simp add: resolved_page_def total_pages_def example_env_def)
  ultimately show ?thesis using m p by simp
qed

text \<open>
  C5. For every integer page of at least 1, every integer limit in \<open>[0, 20]\<close> and every
  store, with a positive configured page size: both list handlers issue a store query,
  and its skip satisfies \<open>0 \<le> skip < docCount + MAX_DOCS_PER_FETCH\<close>, where
  \<open>docCount\<close> is the count the handler's page chain has read (all posts, or the
  comments of the post; \<open>comments_get\<close> needs a well-formed post identifier to reach
  its query).
\<close>

theorem skip_within_bounds:
  assumes m: "0 < MAX_DOCS_PER_FETCH e"
    and page: "read_query_int 1 rp = Some page" "1 \<le> page"
    and limit: "read_query_int (MAX_DOCS_PER_FETCH e) rl = Some limit" "0 \<le> limit" "limit \<le> 20"
  shows "(\<exists>fc. posts_get_query e st \<lparr>q_limit = rl, q_page = rp, q_topic = t, q_userid = u\<rparr> = Query fc
            \<and> 0 \<le> fc_skip fc
            \<and> fc_skip fc < int (Post_countDocuments st) + MAX_DOCS_PER_FETCH e)
       \<and> (ObjectId_isValid (trim postid) \<longrightarrow>
            (\<exists>fc. comments_get_query e st postid \<lparr>cq_limit = rl, cq_page = rp\<rparr> = Query fc
               \<and> 0 \<le> fc_skip fc
               \<and> fc_skip fc < int (Comment_countDocuments st (fc_filter fc)) + MAX_DOCS_PER_FETCH e))"
proof (intro conjI impI)
  let ?q = "\<lparr>q_limit = rl, q_page = rp, q_topic = t, q_userid = u\<rparr>"
  have "posts_get_query e st ?q = Query \<lparr>fc_filter = \<lparr>f_topic = (if truthy (posts_topic_chain st (q_topic ?q))
                                     then posts_topic_chain st (q_topic ?q) else None),
                         f_author = (if truthy (q_userid ?q) then q_userid ?q else None)\<rparr>,
            fc_skip = page_sanitizer (MAX_DOCS_PER_FETCH e) (Post_countDocuments st) page
                        * MAX_DOCS_PER_FETCH e,
            fc_limit = limit_sanitizer limit\<rparr>"
    by (rule posts_get_query_valid) (simp_all add: page limit)
  then show "\<exists>fc. posts_get_query e st ?q = Query fc \<and> 0 \<le> fc_skip fc
            \<and> fc_skip fc < int (Post_countDocuments st) + MAX_DOCS_PER_FETCH e"
    using page_sanitizer_skip_bounds[OF m page(2), of "Post_countDocuments st"] by simp
next
  assume valid: "ObjectId_isValid (trim postid)"
  let ?q = "\<lparr>cq_limit = rl, cq_page = rp\<rparr>"
  have "comments_get_query e st postid ?q =
     Query \<lparr>fc_filter = trim postid,
            fc_skip = page_sanitizer (MAX_DOCS_PER_FETCH e)
                        (Comment_countDocuments st (trim postid)) page * MAX_DOCS_PER_FETCH e,
            fc_limit = limit_sanitizer limit\<rparr>"
    by (rule comments_get_query_valid) (simp_all add: valid page limit)
  then show "\<exists>fc. comments_get_query e st postid ?q = Query fc \<and> 0 \<le> fc_skip fc
               \<and> fc_skip fc < int (Comment_countDocuments st (fc_filter fc)) + MAX_DOCS_PER_FETCH e"
    using page_sanitizer_skip_bounds[OF m page(2), of "Comment_countDocuments st (trim postid)"]
    by simp
qed

theorem skip_within_bounds_witness:
  "0 < MAX_DOCS_PER_FETCH example_env
   \<and> read_query_int 1 (Some ''2'') = Some 2 \<and> (1::int) \<le> 2
   \<and> read_query_int (MAX_DOCS_PER_FETCH example_env) (Some ''10'') = Some 10
   \<and> (0::int) \<le> 10 \<and> (10::int) \<le> 20
   \<and> ObjectId_isValid (trim ''0000000000000000000000a1'')
   \<and> (\<exists>fc. posts_get_query example_env example_store
              \<lparr>q_limit = Some ''10'', q_page = Some ''2'', q_topic = None, q_userid = None\<rparr> = Query fc
            \<and> 0 \<le> fc_skip fc \<and> fc_skip fc < 5)
   \<and> (\<exists>fc. comments_get_query example_env example_store ''0000000000000000000000a1''
              \<lparr>cq_limit = Some ''10'', cq_page = Some ''2''\<rparr> = Query fc
            \<and> 0 \<le> fc_skip fc \<and> fc_skip fc < 2)"
proof -
  have m: "0 < MAX_DOCS_PER_FETCH example_env" by (simp add: example_env_def)
  have p: "read_query_int 1 (Some ''2'') = Some 2" by (simp add: text_defs chain_defs)
  have l: "read_query_int (MAX_DOCS_PER_FETCH example_env) (Some ''10'') = Some 10"
    by (simp add: text_defs chain_defs)
  have v: "ObjectId_isValid (trim ''0000000000000000000000a1'')" by (simp add: text_defs)
  have pc: "int (Post_countDocuments example_store) + MAX_DOCS_PER_FETCH example_env = 5"
    by (simp add: Post_countDocuments_def example_store_def example_env_def)
  have cc: "\<And>i. int (Comment_countDocuments example_store i) + MAX_DOCS_PER_FETCH example_env = 2"
    by (simp add: Comment_countDocuments_def example_store_def example_env_def)
  from skip_within_bounds[OF m p _ l, of example_store None None "''0000000000000000000000a1''"]
  show ?thesis using m p l v pc cc by simp
qed

text \<open>
  The limit chain raises no validation error for an integer text and yields the limit
  itself when it lies in \<open>[0, 20]\<close> and \<open>0\<close> otherwise; that number is the limit of
  the store query of both list handlers.
\<close>

lemma limit_chain_resolved:
  assumes "read_query_int (MAX_DOCS_PER_FETCH e) rl = Some v"
  shows "limit_chain e rl = Inr (if 0 \<le> v \<and> v \<le> 20 then v else 0)
       \<and> (\<forall>fc. posts_get_query e st \<lparr>q_limit = rl, q_page = rp, q_topic = t, q_userid = u\<rparr> = Query fc
              \<longrightarrow> fc_limit fc = (if 0 \<le> v \<and> v \<le> 20 then v else 0))
       \<and> (\<forall>fc. comments_get_query e st postid \<lparr>cq_limit = rl, cq_page = rp\<rparr> = Query fc
              \<longrightarrow> fc_limit fc = (if 0 \<le> v \<and> v \<le> 20 then v else 0))"
proof (intro conjI allI impI)
  show "limit_chain e rl = Inr (if 0 \<le> v \<and> v \<le> 20 then v else 0)"
    using assms by (auto simp: limit_chain_def limit_sanitizer_def)
next
  fix fc
  let ?q = "\<lparr>q_limit = rl, q_page = rp, q_topic = t, q_userid = u\<rparr>"
  assume q: "posts_get_query e st ?q = Query fc"
  from posts_get_query_Query[OF q] obtain p where p: "read_query_int 1 (q_page ?q) = Some p"
    by blast
  have "read_query_int (MAX_DOCS_PER_FETCH e) (q_limit ?q) = Some v" using assms by simp
  from posts_get_query_valid[OF this p, of st] q
  show "fc_limit fc = (if 0 \<le> v \<and> v \<le> 20 then v else 0)"
    by (auto simp: limit_sanitizer_def)
next
  fix fc
  let ?q = "\<lparr>cq_limit = rl, cq_page = rp\<rparr>"
  assume q: "comments_get_query e st postid ?q = Query fc"
  from comments_get_query_Query[OF q] obtain p
    where valid: "ObjectId_isValid (trim postid)"
      and p: "read_query_int 1 (cq_page ?q) = Some p" by blast
  have "read_query_int (MAX_DOCS_PER_FETCH e) (cq_limit ?q) = Some v" using assms by simp
  from comments_get_query_valid[OF valid this p, of st] q
  show "fc_limit fc = (if 0 \<le> v \<and> v \<le> 20 then v else 0)"
    by (auto simp: limit_sanitizer_def)
qed

text \<open>
  With an integer limit outside \<open>[0, 20]\<close> the store query of either list handler runs
  with limit 0, and the endpoint answers with every matching document after the skip.
\<close>

lemma posts_get_limit_out_of_range:
  assumes limit: "read_query_int (MAX_DOCS_PER_FETCH e) (q_limit q) = Some v" "v < 0 \<or> 20 < v"
    and query: "posts_get_query e st q = Query fc"
  shows "fc_limit fc = 0
       \<and> posts_get e st q =
           (if \<not> (cast_ok (f_topic (fc_filter fc)) \<and> cast_ok (f_author (fc_filter fc)))
            then Thrown ''CastError''
            else if fc_skip fc < 0 then Thrown ''Skip value must be non-negative''
            else Json (drop (nat (fc_skip fc))
                        (sort_key (\<lambda>p. - int (p_date p))
                           (filter (post_matches (fc_filter fc)) (Post_coll st)))))"
proof -
  from posts_get_query_Query[OF query] obtain p where p: "read_query_int 1 (q_page q) = Some p"
    by blast
  from posts_get_query_valid[OF limit(1) p, of st] query limit(2)
  have zero: "fc_limit fc = 0" by (auto simp: limit_sanitizer_def)
  show ?thesis
    by (simp add: zero posts_get_def query Post_find_def window_def apply_limit_def)
qed

lemma comments_get_limit_out_of_range:
  assumes limit: "read_query_int (MAX_DOCS_PER_FETCH e) (cq_limit q) = Some v" "v < 0 \<or> 20 < v"
    and query: "comments_get_query e st postid q = Query fc"
  shows "fc_limit fc = 0
       \<and> comments_get e st postid q =
           (if fc_skip fc < 0 then Thrown ''Skip value must be non-negative''
            else Json (drop (nat (fc_skip fc))
                        (filter (\<lambda>c. c_post c = ObjectId (trim postid)) (Comment_coll st))))"
proof -
  from comments_get_query_Query[OF query] obtain p
    where valid: "ObjectId_isValid (trim postid)"
      and p: "read_query_int 1 (cq_page q) = Some p" by blast
  from comments_get_query_valid[OF valid limit(1) p, of st] query limit(2)
  have fc: "fc_limit fc = 0" "fc_filter fc = trim postid" by (auto simp: limit_sanitizer_def)
  show ?thesis
    using valid
    by (simp add: fc comments_get_def query Comment_find_def window_def apply_limit_def)
qed

text \<open>
  C6 at a failing input. With two documents per page, \<open>limit=2\<close> lists two of the
  three example posts. With \<open>limit=21\<close> the limit chain raises no error and resolves
  to 0, and the endpoint answers with all three posts, not with an empty list; the
  comment list of the commented example post is not empty under \<open>limit=21\<close> either.
\<close>

theorem limit_out_of_range_returns_documents:
  "limit_chain example_env (Some ''21'') = Inr 0
   \<and> posts_get example_env example_store
        \<lparr>q_limit = Some ''21'', q_page = None, q_topic = None, q_userid = None\<rparr>
      = Json [example_post3, example_post2, example_post1]
   \<and> posts_get example_env example_store
        \<lparr>q_limit = Some ''2'', q_page = None, q_topic = None, q_userid = None\<rparr>
      = Json [example_post3, example_post2]
   \<and> comments_get example_env example_commented_store ''0000000000000000000000a1''
        \<lparr>cq_limit = Some ''21'', cq_page = None\<rparr> = Json [example_comment]"
proof (intro conjI)
  show "limit_chain example_env (Some ''21'') = Inr 0"
    by (simp add: text_defs chain_defs)
  show "posts_get example_env example_store
        \<lparr>q_limit = Some ''21'', q_page = None, q_topic = None, q_userid = None\<rparr>
      = Json [example_post3, example_post2, example_post1]"
    by (simp add: posts_get_def posts_get_query_def posts_topic_chain_def
        text_defs chain_defs store_defs example_defs)
  show "posts_get example_env example_store
        \<lparr>q_limit = Some ''2'', q_page = None, q_topic = None, q_userid = None\<rparr>
      = Json [example_post3, example_post2]"
    by (simp add: posts_get_def posts_get_query_def posts_topic_chain_def
        text_defs chain_defs store_defs example_defs)
  show "comments_get example_env example_commented_store ''0000000000000000000000a1''
        \<lparr>cq_limit = Some ''21'', cq_page = None\<rparr> = Json [example_comment]"
    by (simp add: example_commented_store_eq comments_get_def comments_get_query_def
        text_defs chain_defs store_defs example_env_def example_comment_def)
qed

section \<open>Topics\<close>


text \<open>
  C10, as stated for the value the client sends, fails: the value \<open>'' news''\<close> with a
  leading blank equals no stored topic name and is no identifier, yet the chain trims
  it, finds the topic \<open>''news''\<close> and the list is filtered.
\<close>

theorem untrimmed_topic_still_filters:
  "Topic_findOne_name example_store '' news'' = None
   \<and> \<not> ObjectId_isValid '' news''
   \<and> posts_topic_chain example_store (Some '' news'') = Some ''0000000000000000000000c1''
   \<and> posts_get example_env example_store
        \<lparr>q_limit = Some ''10'', q_page = None, q_topic = Some '' news'', q_userid = None\<rparr>
      = Json [example_post3, example_post1]
   \<and> posts_get example_env example_store
        \<lparr>q_limit = Some ''10'', q_page = None, q_topic = None, q_userid = None\<rparr>
      = Json [example_post3, example_post2, example_post1]"
  by (simp add: posts_get_def posts_get_query_def posts_topic_chain_def posts_topic_sanitizer_def
      text_defs chain_defs store_defs example_defs)

text \<open>
  C10 (amended). For every request to \<open>posts_get\<close> whose \<open>topic\<close> value, once
  trimmed and escaped by the chain, equals no stored topic name and is no valid
  identifier: the topic sanitizer yields no value, the store query has no topic filter,
  and the endpoint answers exactly as for the same request without a topic.
\<close>

theorem unknown_topic_is_dropped:
  assumes "Topic_findOne_name st (escape (trim raw)) = None"
    and "\<not> ObjectId_isValid (escape (trim raw))"
  shows "posts_topic_chain st (Some raw) = None
       \<and> (\<forall>fc. posts_get_query e st (q\<lparr>q_topic := Some raw\<rparr>) = Query fc
              \<longrightarrow> f_topic (fc_filter fc) = None)
       \<and> posts_get_query e st (q\<lparr>q_topic := Some raw\<rparr>) = posts_get_query e st (q\<lparr>q_topic := None\<rparr>)
       \<and> posts_get e st (q\<lparr>q_topic := Some raw\<rparr>) = posts_get e st (q\<lparr>q_topic := None\<rparr>)"
proof -
  have chain: "posts_topic_chain st (Some raw) = None"
    using assms by (simp add: posts_topic_chain_def posts_topic_sanitizer_def)
  have absent: "posts_topic_chain st None = None"
    by (simp add: posts_topic_chain_def)
  have same: "posts_get_query e st (q\<lparr>q_topic := Some raw\<rparr>) = posts_get_query e st (q\<lparr>q_topic := None\<rparr>)"
    by (simp add: posts_get_query_def chain absent truthy_def)
  have none: "f_topic (fc_filter fc) = None"
    if "posts_get_query e st (q\<lparr>q_topic := Some raw\<rparr>) = Query fc" for fc
    using that
    by (auto simp: posts_get_query_def chain truthy_def Let_def split: if_splits sum.splits)
  show ?thesis using chain same none by (simp add: posts_get_def)
qed

theorem unknown_topic_is_dropped_witness:
  "Topic_findOne_name example_store (escape (trim ''R&D'')) = None
   \<and> \<not> ObjectId_isValid (escape (trim ''R&D''))
   \<and> posts_get example_env example_store
        \<lparr>q_limit = Some ''10'', q_page = None, q_topic = Some ''R&D'', q_userid = None\<rparr>
      = Json [example_post3, example_post2, example_post1]"
proof -
  have a: "Topic_findOne_name example_store (escape (trim ''R&D'')) = None"
    by (simp add: text_defs store_defs example_defs)
  have b: "\<not> ObjectId_isValid (escape (trim ''R&D''))" by (simp add: text_defs)
  have c: "posts_get example_env example_store
        \<lparr>q_limit = Some ''10'', q_page = None, q_topic = None, q_userid = None\<rparr>
      = Json [example_post3, example_post2, example_post1]"
    by (simp add: posts_get_def posts_get_query_def posts_topic_chain_def
        text_defs chain_defs store_defs example_defs)
  from unknown_topic_is_dropped[OF a b, of example_env
      "\<lparr>q_limit = Some ''10'', q_page = None, q_topic = None, q_userid = None\<rparr>"]
  show ?thesis using a b c by simp
qed

section \<open>Ownership of posts\<close>

text \<open>
  C3, as stated for every update or delete, fails on a request that does not pass the
  validation chains: it is answered with 400 before the post is looked up, whether or
  not the post exists.
\<close>

theorem invalid_update_of_absent_post_is_rejected:
  "post_by_id example_store (ObjectId (trim ''0000000000000000000000a9'')) = None
   \<and> post_put example_store (Some ''0000000000000000000000b1'') ''0000000000000000000000a9''
        \<lparr>pb_title = Some ''ab'', pb_body = None, pb_topic = None\<rparr>
      = (BadRequest [(''title'', ''Title must have correct length'')], example_store)
   \<and> post_by_id example_store (ObjectId (trim ''no-such-id'')) = None
   \<and> post_delete example_store (Some ''0000000000000000000000b1'') ''no-such-id''
      = (BadRequest [(''postid'', ''Post id must be valid'')], example_store)"
  by (simp add: post_put_def post_put_chains_def put_topic_chain_def post_delete_def
      post_delete_chains_def text_defs chain_defs store_defs example_defs)

text \<open>
  C3 (amended). For every update (\<open>post_put\<close>) or delete (\<open>post_delete\<close>) of a post
  by an authenticated principal whose request passes the validation chains: when no
  post with the given identifier is stored the result is 404, whoever the principal is;
  when the post is stored and its author differs from the principal the result is 403;
  the store is left as it was in both cases. Existence is checked before ownership. A
  request that does not pass the chains is answered with 400 and the collected errors.
\<close>

theorem ownership_guard_after_validation:
  "(fst (post_put_chains st postid b) = [] \<longrightarrow>
      (post_by_id st (ObjectId (trim postid)) = None \<longrightarrow>
         post_put st (Some u) postid b = (NotFound, st))
    \<and> (\<forall>p. post_by_id st (ObjectId (trim postid)) = Some p \<and> p_author p \<noteq> u \<longrightarrow>
         post_put st (Some u) postid b = (Forbidden, st)))
   \<and> (fst (post_put_chains st postid b) \<noteq> [] \<longrightarrow>
        post_put st (Some u) postid b = (BadRequest (fst (post_put_chains st postid b)), st))
   \<and> (fst (post_delete_chains postid) = [] \<longrightarrow>
      (post_by_id st (ObjectId (trim postid)) = None \<longrightarrow>
         post_delete st (Some u) postid = (NotFound, st))
    \<and> (\<forall>p. post_by_id st (ObjectId (trim postid)) = Some p \<and> p_author p \<noteq> u \<longrightarrow>
         post_delete st (Some u) postid = (Forbidden, st)))
   \<and> (fst (post_delete_chains postid) \<noteq> [] \<longrightarrow>
        post_delete st (Some u) postid = (BadRequest (fst (post_delete_chains postid)), st))"
proof (intro conjI impI allI)
  assume ok: "fst (post_put_chains st postid b) = []"
  show "post_put st (Some u) postid b = (NotFound, st)"
    if "post_by_id st (ObjectId (trim postid)) = None"
    by (rule post_put_absent[OF ok that])
  show "post_put st (Some u) postid b = (Forbidden, st)"
    if "post_by_id st (ObjectId (trim postid)) = Some p \<and> p_author p \<noteq> u" for p
    using post_put_not_owner[OF ok] that by blast
next
  assume "fst (post_put_chains st postid b) \<noteq> []"
  then show "post_put st (Some u) postid b = (BadRequest (fst (post_put_chains st postid b)), st)"
    by (rule post_put_rejects)
next
  assume ok: "fst (post_delete_chains postid) = []"
  show "post_delete st (Some u) postid = (NotFound, st)"
    if "post_by_id st (ObjectId (trim postid)) = None"
    by (rule post_delete_absent[OF ok that])
  show "post_delete st (Some u) postid = (Forbidden, st)"
    if "post_by_id st (ObjectId (trim postid)) = Some p \<and> p_author p \<noteq> u" for p
    using post_delete_not_owner[OF ok] that by blast
next
  assume "fst (post_delete_chains postid) \<noteq> []"
  then show "post_delete st (Some u) postid = (BadRequest (fst (post_delete_chains postid)), st)"
    by (simp add: post_delete_def split_beta)
qed

theorem ownership_guard_after_validation_witness:
  "fst (post_put_chains example_store ''0000000000000000000000a9''
          \<lparr>pb_title = Some ''A title'', pb_body = None, pb_topic = None\<rparr>) = []
   \<and> post_by_id example_store (ObjectId (trim ''0000000000000000000000a9'')) = None
   \<and> post_put example_store (Some ''0000000000000000000000b2'') ''0000000000000000000000a9''
        \<lparr>pb_title = Some ''A title'', pb_body = None, pb_topic = None\<rparr> = (NotFound, example_store)
   \<and> fst (post_put_chains example_store ''0000000000000000000000a1''
          \<lparr>pb_title = Some ''A title'', pb_body = None, pb_topic = None\<rparr>) = []
   \<and> post_by_id example_store (ObjectId (trim ''0000000000000000000000a1'')) = Some example_post1
   \<and> p_author example_post1 \<noteq> ''0000000000000000000000b2''
   \<and> post_put example_store (Some ''0000000000000000000000b2'') ''0000000000000000000000a1''
        \<lparr>pb_title = Some ''A title'', pb_body = None, pb_topic = None\<rparr> = (Forbidden, example_store)
   \<and> fst (post_delete_chains ''0000000000000000000000a1'') = []
   \<and> post_delete example_store (Some ''0000000000000000000000b2'') ''0000000000000000000000a1''
       = (Forbidden, example_store)
   \<and> fst (post_delete_chains ''0000000000000000000000a9'') = []
   \<and> post_delete example_store (Some ''0000000000000000000000b2'') ''0000000000000000000000a9''
       = (NotFound, example_store)"
proof -
  let ?b = "\<lparr>pb_title = Some ''A title'', pb_body = None, pb_topic = None\<rparr>"
  have v9: "fst (post_put_chains example_store ''0000000000000000000000a9'' ?b) = []"
    by (simp add: post_put_chains_def put_topic_chain_def text_defs chain_defs)
  have v1: "fst (post_put_chains example_store ''0000000000000000000000a1'' ?b) = []"
    by (simp add: post_put_chains_def put_topic_chain_def text_defs chain_defs)
  have d1: "fst (post_delete_chains ''0000000000000000000000a1'') = []"
    by (simp add: post_delete_chains_def text_defs chain_defs)
  have d9: "fst (post_delete_chains ''0000000000000000000000a9'') = []"
    by (simp add: post_delete_chains_def text_defs chain_defs)
  have n9: "post_by_id example_store (ObjectId (trim ''0000000000000000000000a9'')) = None"
    by (simp add: text_defs store_defs example_defs)
  have s1: "post_by_id example_store (ObjectId (trim ''0000000000000000000000a1'')) = Some example_post1"
    by (simp add: text_defs store_defs example_defs)
  have a1: "p_author example_post1 \<noteq> ''0000000000000000000000b2''"
    by (simp add: example_defs)
  note g9 = ownership_guard_after_validation[of example_store "''0000000000000000000000a9''" ?b
      "''0000000000000000000000b2''"]
  note g1 = ownership_guard_after_validation[of example_store "''0000000000000000000000a1''" ?b
      "''0000000000000000000000b2''"]
  show ?thesis using g9 g1 v9 v1 d1 d9 n9 s1 a1 by simp
qed

text \<open>
  C4, as stated for every PUT, fails on the status: a PUT by another user whose title is
  too short is answered with 400, not 403.
\<close>

theorem invalid_update_by_other_user_is_rejected:
  "post_by_id example_store (ObjectId (trim ''0000000000000000000000a1'')) = Some example_post1
   \<and> p_author example_post1 \<noteq> ''0000000000000000000000b2''
   \<and> post_put example_store (Some ''0000000000000000000000b2'') ''0000000000000000000000a1''
        \<lparr>pb_title = Some ''ab'', pb_body = None, pb_topic = None\<rparr>
      = (BadRequest [(''title'', ''Title must have correct length'')], example_store)"
  by (simp add: post_put_def post_put_chains_def put_topic_chain_def
      text_defs chain_defs store_defs example_defs)

text \<open>
  C4 (amended). For every stored post and every authenticated principal whose identifier
  differs from the post's author, a PUT on that post leaves the whole store, and so the
  post document, unchanged; it returns 403 when the request passes the validation
  chains and 400 with the collected errors otherwise.
\<close>

theorem update_by_other_user_changes_nothing:
  assumes "post_by_id st (ObjectId (trim postid)) = Some p" and "p_author p \<noteq> u"
  shows "snd (post_put st (Some u) postid b) = st
       \<and> fst (post_put st (Some u) postid b)
           = (if fst (post_put_chains st postid b) = [] then Forbidden
              else BadRequest (fst (post_put_chains st postid b)))"
proof (cases "fst (post_put_chains st postid b) = []")
  case True
  from post_put_not_owner[OF True assms] True show ?thesis by simp
next
  case False
  from post_put_rejects[OF False] False show ?thesis by simp
qed

theorem update_by_other_user_changes_nothing_witness:
  "post_by_id example_store (ObjectId (trim ''0000000000000000000000a1'')) = Some example_post1
   \<and> p_author example_post1 \<noteq> ''0000000000000000000000b2''
   \<and> post_put example_store (Some ''0000000000000000000000b2'') ''0000000000000000000000a1''
        \<lparr>pb_title = Some ''A new title'', pb_body = None, pb_topic = None\<rparr>
      = (Forbidden, example_store)"
proof -
  let ?b = "\<lparr>pb_title = Some ''A new title'', pb_body = None, pb_topic = None\<rparr>"
  have s1: "post_by_id example_store (ObjectId (trim ''0000000000000000000000a1'')) = Some example_post1"
    by (simp add: text_defs store_defs example_defs)
  have a1: "p_author example_post1 \<noteq> ''0000000000000000000000b2''"
    by (simp add: example_defs)
  have v1: "fst (post_put_chains example_store ''0000000000000000000000a1'' ?b) = []"
    by (simp add: post_put_chains_def put_topic_chain_def text_defs chain_defs)
  from update_by_other_user_changes_nothing[OF s1 a1, of ?b]
  show ?thesis using s1 a1 v1 by (simp add: prod_eq_iff)
qed

section \<open>Comments and their posts\<close>

text \<open>
  C8, as stated, fails on the empty list: \<open>post_delete\<close> removes a post and leaves
  its comments, so after a comment on the first example post and the deletion of that
  post the list for its identifier, which names no stored post, holds the comment. And
  a page that is no integer is answered with 400, whatever the post.
\<close>

theorem comments_of_deleted_post_are_listed:
  "fst (comment_post example_env example_store ''0000000000000000000000d1'' 7
          ''0000000000000000000000a1'' example_comment_body) = Json example_comment
   \<and> fst (post_delete example_commented_store (Some ''0000000000000000000000b1'')
            ''0000000000000000000000a1'')
       = Json (example_post1\<lparr>p_comments := [''0000000000000000000000d1'']\<rparr>)
   \<and> ObjectId_isValid (trim ''0000000000000000000000a1'')
   \<and> post_by_id example_orphan_store (ObjectId (trim ''0000000000000000000000a1'')) = None
   \<and> comments_get example_env example_orphan_store ''0000000000000000000000a1''
        \<lparr>cq_limit = None, cq_page = None\<rparr> = Json [example_comment]
   \<and> comments_get example_env example_orphan_store ''0000000000000000000000a1''
        \<lparr>cq_limit = None, cq_page = Some ''x''\<rparr>
       = BadRequest [(''page'', ''Page query must have valid format'')]"
proof (intro conjI)
  show "fst (comment_post example_env example_store ''0000000000000000000000d1'' 7
          ''0000000000000000000000a1'' example_comment_body) = Json example_comment"
    by (simp add: example_comment_post)
  show "fst (post_delete example_commented_store (Some ''0000000000000000000000b1'')
            ''0000000000000000000000a1'')
       = Json (example_post1\<lparr>p_comments := [''0000000000000000000000d1'']\<rparr>)"
    by (simp add: example_post_delete)
  show "ObjectId_isValid (trim ''0000000000000000000000a1'')"
    by (simp add: text_defs)
  show "post_by_id example_orphan_store (ObjectId (trim ''0000000000000000000000a1'')) = None"
    by (simp add: example_orphan_store_eq text_defs store_defs example_post2_def
        example_post3_def)
  show "comments_get example_env example_orphan_store ''0000000000000000000000a1''
        \<lparr>cq_limit = None, cq_page = None\<rparr> = Json [example_comment]"
    by (simp add: example_orphan_store_eq comments_get_def comments_get_query_def
        text_defs chain_defs store_defs example_env_def example_comment_def)
  show "comments_get example_env example_orphan_store ''0000000000000000000000a1''
        \<lparr>cq_limit = None, cq_page = Some ''x''\<rparr>
       = BadRequest [(''page'', ''Page query must have valid format'')]"
    by (simp add: example_orphan_store_eq comments_get_def comments_get_query_def
        text_defs chain_defs store_defs example_env_def example_comment_def)
qed

text \<open>
  C8 (amended). \<open>comments_get\<close> never answers 404. For a well-formed post identifier,
  an integer limit and an integer page other than 0, it answers 200 with an empty list
  when no stored comment references the identifier; that is the case when the identifier
  names no stored post and every stored comment references a stored post.
\<close>

theorem comments_get_unreferenced_post:
  "comments_get e st postid q \<noteq> NotFound
   \<and> (ObjectId_isValid (trim postid)
       \<and> (\<exists>l. read_query_int (MAX_DOCS_PER_FETCH e) (cq_limit q) = Some l)
       \<and> (\<exists>v. read_query_int 1 (cq_page q) = Some v \<and> v \<noteq> 0)
       \<and> (\<forall>c \<in> set (Comment_coll st). c_post c \<noteq> ObjectId (trim postid))
       \<longrightarrow> comments_get e st postid q = Json [])
   \<and> (ObjectId_isValid (trim postid)
       \<and> (\<exists>l. read_query_int (MAX_DOCS_PER_FETCH e) (cq_limit q) = Some l)
       \<and> (\<exists>v. read_query_int 1 (cq_page q) = Some v \<and> v \<noteq> 0)
       \<and> post_by_id st (ObjectId (trim postid)) = None \<and> comment_refs_exist st
       \<longrightarrow> comments_get e st postid q = Json [])"
proof -
  have empty: "comments_get e st postid q = Json []"
    if valid: "ObjectId_isValid (trim postid)"
      and l: "read_query_int (MAX_DOCS_PER_FETCH e) (cq_limit q) = Some l"
      and v: "read_query_int 1 (cq_page q) = Some v" "v \<noteq> 0"
      and none: "\<forall>c \<in> set (Comment_coll st). c_post c \<noteq> ObjectId (trim postid)" for l v
  proof -
    have no_match: "filter (\<lambda>c. c_post c = ObjectId (trim postid)) (Comment_coll st) = []"
      using none by (simp add: filter_empty_conv)
    then have count: "Comment_countDocuments st (trim postid) = 0"
      by (simp add: Comment_countDocuments_def)
    show ?thesis
      using comments_get_query_valid[OF valid l v(1), of st] valid
      by (simp add: comments_get_def count page_sanitizer_no_documents[OF v(2)]
          Comment_find_def window_def apply_limit_def no_match)
  qed
  have refs: "\<forall>c \<in> set (Comment_coll st). c_post c \<noteq> ObjectId (trim postid)"
    if "post_by_id st (ObjectId (trim postid)) = None" and "comment_refs_exist st"
    using that by (auto simp: comment_refs_exist_def list_all_iff)
  show ?thesis using comments_get_not_NotFound empty refs by blast
qed

text \<open>
  An instance on a store that holds a comment of the first example post, where the list
  of that post is not empty: the identifier asked for names no post there and no
  comment references it.
\<close>

theorem comments_get_unreferenced_post_witness:
  "Comment_coll example_commented_store = [example_comment]
   \<and> comments_get example_env example_commented_store ''0000000000000000000000a1''
        \<lparr>cq_limit = None, cq_page = Some ''4''\<rparr> = Json [example_comment]
   \<and> ObjectId_isValid (trim ''0000000000000000000000a9'')
   \<and> read_query_int (MAX_DOCS_PER_FETCH example_env) None = Some 2
   \<and> read_query_int 1 (Some ''4'') = Some 4 \<and> (4::int) \<noteq> 0
   \<and> c_post example_comment \<noteq> ObjectId (trim ''0000000000000000000000a9'')
   \<and> post_by_id example_commented_store (ObjectId (trim ''0000000000000000000000a9'')) = None
   \<and> comment_refs_exist example_commented_store
   \<and> comments_get example_env example_commented_store ''0000000000000000000000a9''
        \<lparr>cq_limit = None, cq_page = Some ''4''\<rparr> = Json []"
proof -
  have cs: "Comment_coll example_commented_store = [example_comment]"
    by (simp add: example_commented_store_eq)
  have other: "comments_get example_env example_commented_store ''0000000000000000000000a1''
        \<lparr>cq_limit = None, cq_page = Some ''4''\<rparr> = Json [example_comment]"
    by (simp add: example_commented_store_eq comments_get_def comments_get_query_def
        text_defs chain_defs store_defs example_env_def example_comment_def)
  have v: "ObjectId_isValid (trim ''0000000000000000000000a9'')" by (simp add: text_defs)
  have l: "read_query_int (MAX_DOCS_PER_FETCH example_env) None = Some 2"
    by (simp add: read_query_int_def example_env_def)
  have p: "read_query_int 1 (Some ''4'') = Some 4" by (simp add: text_defs chain_defs)
  have u: "c_post example_comment \<noteq> ObjectId (trim ''0000000000000000000000a9'')"
    by (simp add: example_comment_def text_defs)
  have n: "post_by_id example_commented_store (ObjectId (trim ''0000000000000000000000a9'')) = None"
    by (simp add: example_commented_store_eq text_defs store_defs example_defs)
  have r: "comment_refs_exist example_commented_store"
    by (simp add: comment_refs_exist_def example_commented_store_eq example_comment_def
        store_defs example_defs)
  from comments_get_unreferenced_post[of example_env example_commented_store
      "''0000000000000000000000a9''" "\<lparr>cq_limit = None, cq_page = Some ''4''\<rparr>"]
  have "comments_get example_env example_commented_store ''0000000000000000000000a9''
        \<lparr>cq_limit = None, cq_page = Some ''4''\<rparr> = Json []"
    using v l p cs u by simp
  then show ?thesis using cs other v l p u n r by simp
qed

text \<open>
  C9, as stated, fails on the status: a comment whose title is too short, sent for a post
  that does not exist, is answered with 400, not 404.
\<close>

theorem invalid_comment_on_absent_post_is_rejected:
  "post_by_id example_store (ObjectId (trim ''0000000000000000000000a9'')) = None
   \<and> comment_post example_env example_store ''0000000000000000000000d1'' 7
        ''0000000000000000000000a9''
        \<lparr>b_email = Some ''reader@example.org'', b_title = Some ''ab'',
          b_body = Some ''A comment that is long enough''\<rparr>
      = (BadRequest [(''title'', ''Title must have correct length'')], example_store)"
  by (simp add: comment_post_def comment_post_chains_def
      text_defs chain_defs store_defs example_defs)

text \<open>
  C9 (amended). \<open>comment_post\<close> keeps every stored comment's post reference naming a
  stored post. When the referenced post does not exist nothing is created: the store is
  unchanged and the answer is 404 for a request that passes the validation chains, 400
  with the collected errors otherwise. When it answers with the new comment, that comment
  carries the given post reference, is appended to the stored comments, and its
  identifier is appended to the comments list of the referenced post.
\<close>

theorem comment_post_keeps_references:
  "(post_by_id st (ObjectId (trim postid)) = None \<longrightarrow>
      comment_post e st new_id now postid b
        = (if fst (comment_post_chains e postid b) = [] then NotFound
           else BadRequest (fst (comment_post_chains e postid b)), st))
   \<and> (\<forall>c. fst (comment_post e st new_id now postid b) = Json c \<longrightarrow>
        c_post c = ObjectId (trim postid)
        \<and> (\<exists>post. post_by_id st (ObjectId (trim postid)) = Some post
              \<and> Comment_coll (snd (comment_post e st new_id now postid b)) = Comment_coll st @ [c]
              \<and> post_by_id (snd (comment_post e st new_id now postid b)) (ObjectId (trim postid))
                  = Some (post\<lparr>p_comments := p_comments post @ [c_id c]\<rparr>)))
   \<and> (comment_refs_exist st \<longrightarrow> comment_refs_exist (snd (comment_post e st new_id now postid b)))"
proof (intro conjI impI allI)
  assume none: "post_by_id st (ObjectId (trim postid)) = None"
  show "comment_post e st new_id now postid b
        = (if fst (comment_post_chains e postid b) = [] then NotFound
           else BadRequest (fst (comment_post_chains e postid b)), st)"
    using comment_post_absent[OF _ none] comment_post_rejects by simp
next
  fix c
  assume json: "fst (comment_post e st new_id now postid b) = Json c"
  from comment_post_Json[OF json] obtain post
    where found: "post_by_id st (ObjectId (trim postid)) = Some post"
      and ref: "c_post c = ObjectId (trim postid)"
      and st': "snd (comment_post e st new_id now postid b)
               = Post_save (st\<lparr>Comment_coll := Comment_coll st @ [c]\<rparr>)
                   (post\<lparr>p_comments := p_comments post @ [c_id c]\<rparr>)"
    by blast
  have id: "p_id post = ObjectId (trim postid)" by (rule post_by_id_has_id[OF found])
  show "c_post c = ObjectId (trim postid)" by (rule ref)
  show "\<exists>post. post_by_id st (ObjectId (trim postid)) = Some post
              \<and> Comment_coll (snd (comment_post e st new_id now postid b)) = Comment_coll st @ [c]
              \<and> post_by_id (snd (comment_post e st new_id now postid b)) (ObjectId (trim postid))
                  = Some (post\<lparr>p_comments := p_comments post @ [c_id c]\<rparr>)"
    using found id by (simp add: st' post_by_id_Post_save) (simp add: Post_save_def)
next
  assume inv: "comment_refs_exist st"
  from comment_post_store_cases[of e st new_id now postid b]
  show "comment_refs_exist (snd (comment_post e st new_id now postid b))"
  proof
    assume "snd (comment_post e st new_id now postid b) = st"
    then show ?thesis using inv by simp
  next
    assume "\<exists>c. fst (comment_post e st new_id now postid b) = Json c"
    then obtain c where json: "fst (comment_post e st new_id now postid b) = Json c" ..
    from comment_post_Json[OF json] obtain post
      where found: "post_by_id st (ObjectId (trim postid)) = Some post"
        and ref: "c_post c = ObjectId (trim postid)"
        and st': "snd (comment_post e st new_id now postid b)
               = Post_save (st\<lparr>Comment_coll := Comment_coll st @ [c]\<rparr>)
                   (post\<lparr>p_comments := p_comments post @ [c_id c]\<rparr>)"
      by blast
    have same: "(post_by_id (snd (comment_post e st new_id now postid b)) j \<noteq> None)
                  = (post_by_id st j \<noteq> None)" for j
      by (simp add: st' post_by_id_Post_save split: option.splits)
    have coll: "Comment_coll (snd (comment_post e st new_id now postid b)) = Comment_coll st @ [c]"
      by (simp add: st' Post_save_def)
    have same': "(\<exists>y. post_by_id (snd (comment_post e st new_id now postid b)) j = Some y)
                  = (\<exists>y. post_by_id st j = Some y)" for j
      using same[of j] by simp
    show ?thesis
      using inv found ref by (simp add: comment_refs_exist_def same' coll)
  qed
qed

theorem comment_post_keeps_references_witness:
  "fst (comment_post example_env example_store ''0000000000000000000000d1'' 7
          ''0000000000000000000000a1'' example_comment_body) = Json example_comment
   \<and> c_post example_comment = ObjectId (trim ''0000000000000000000000a1'')
   \<and> Comment_coll example_commented_store = [example_comment]
   \<and> post_by_id example_commented_store (ObjectId (trim ''0000000000000000000000a1''))
       = Some (example_post1\<lparr>p_comments := [''0000000000000000000000d1'']\<rparr>)
   \<and> comment_refs_exist example_store
   \<and> comment_refs_exist example_commented_store
   \<and> post_by_id example_store (ObjectId (trim ''0000000000000000000000a9'')) = None
   \<and> comment_post example_env example_store ''0000000000000000000000d1'' 7
          ''0000000000000000000000a9'' example_comment_body = (NotFound, example_store)"
proof -
  have j: "fst (comment_post example_env example_store ''0000000000000000000000d1'' 7
          ''0000000000000000000000a1'' example_comment_body) = Json example_comment"
    by (simp add: example_comment_post)
  have f: "post_by_id example_store (ObjectId (trim ''0000000000000000000000a1'')) = Some example_post1"
    by (simp add: text_defs store_defs example_defs)
  have r: "comment_refs_exist example_store"
    by (simp add: comment_refs_exist_def example_store_def)
  have n: "post_by_id example_store (ObjectId (trim ''0000000000000000000000a9'')) = None"
    by (simp add: text_defs store_defs example_defs)
  have ok: "fst (comment_post_chains example_env ''0000000000000000000000a9'' example_comment_body) = []"
    by (simp add: comment_post_chains_def text_defs chain_defs example_env_def
        example_comment_body_def)
  have cid: "c_id example_comment = ''0000000000000000000000d1''"
    by (simp add: example_comment_def)
  note k1 = comment_post_keeps_references[of example_store "''0000000000000000000000a1''"
      example_env "''0000000000000000000000d1''" 7 example_comment_body]
  note k9 = comment_post_keeps_references[of example_store "''0000000000000000000000a9''"
      example_env "''0000000000000000000000d1''" 7 example_comment_body]
  have e: "Comment_coll example_store = []" "p_comments example_post1 = []"
    by (simp_all add: example_store_def example_post1_def)
  show ?thesis
    using k1 k9 j f r n ok cid e by (simp add: example_commented_store_def)
qed

section \<open>The validation gate\<close>

text \<open>\<open>comment_put\<close> never answers with the collected errors.\<close>

lemma comment_put_never_rejects:
  "fst (comment_put e st postid commentid b) \<noteq> BadRequest errors"
  by (simp add: comment_put_def array_truthy_def split_beta split: sum.splits option.splits)

text \<open>
  C1 at a failing input. A PUT on the example comment with the title \<open>''ab''\<close>: the
  chains record an error for the title, and the handler still runs the update, stores
  the title and answers with the updated comment.
\<close>

theorem comment_put_runs_despite_validation_errors:
  "fst (comment_put_chains example_env ''0000000000000000000000a1'' ''0000000000000000000000d1''
          example_bad_update) = [(''title'', ''Title must have correct length'')]
   \<and> comment_put example_env example_commented_store ''0000000000000000000000a1''
        ''0000000000000000000000d1'' example_bad_update
      = (Json (example_comment\<lparr>c_title := ''ab''\<rparr>),
         example_commented_store\<lparr>Comment_coll := [example_comment\<lparr>c_title := ''ab''\<rparr>]\<rparr>)"
proof (intro conjI)
  show "fst (comment_put_chains example_env ''0000000000000000000000a1'' ''0000000000000000000000d1''
          example_bad_update) = [(''title'', ''Title must have correct length'')]"
    by (simp add: comment_put_chains_def example_bad_update_def text_defs chain_defs)
  show "comment_put example_env example_commented_store ''0000000000000000000000a1''
        ''0000000000000000000000d1'' example_bad_update
      = (Json (example_comment\<lparr>c_title := ''ab''\<rparr>),
         example_commented_store\<lparr>Comment_coll := [example_comment\<lparr>c_title := ''ab''\<rparr>]\<rparr>)"
    by (simp add: example_commented_store_eq comment_put_def comment_put_chains_def
        Comment_findOneAndUpdate_def apply_comment_update_def array_truthy_def
        example_bad_update_def example_comment_def text_defs chain_defs)
qed

end
